theory Spec2Isabelle
  imports Complex_Main
begin

section \<open>Tensors\<close>

text \<open>
  The notebooks compute on two-dimensional torch tensors.  A tensor of shape
  \<open>(n, d)\<close> is the list of its \<open>n\<close> rows together with the column count \<open>d\<close>
  (kept apart from the rows, since a tensor of shape \<open>(0, d)\<close> still has a
  width).  Entries are idealised as real numbers: rounding of the floating
  point operations is outside this development.
\<close>

type_synonym vec = "real list"

record tensor =
  ncols :: nat
  rows :: "vec list"

definition nrows :: "tensor \<Rightarrow> nat" where
  "nrows t = length (rows t)"

definition wf_tensor :: "tensor \<Rightarrow> bool" where
  "wf_tensor t = list_all (\<lambda>r. length r = ncols t) (rows t)"

text \<open>\<^verbatim>\<open>torch.ones(n, d)\<close> and the all-zero tensor of the same shape.\<close>

definition torch_ones :: "nat \<Rightarrow> nat \<Rightarrow> tensor" where
  "torch_ones n d = \<lparr>ncols = d, rows = replicate n (replicate d 1)\<rparr>"

definition torch_zeros :: "nat \<Rightarrow> nat \<Rightarrow> tensor" where
  "torch_zeros n d = \<lparr>ncols = d, rows = replicate n (replicate d 0)\<rparr>"

text \<open>
  Exceptions of the libraries the notebooks call: \<open>DGLError\<close> (feature row
  count or feature shapes rejected by the graph library, or a graph rejected at
  construction), \<open>KeyError\<close> (a feature name that is not stored),
  \<open>IndexError\<close> and \<open>RuntimeError\<close> (torch indexing and shape errors);
  \<open>ValueError\<close> is what NumPy and SciPy raise.
\<close>

datatype error = DGLError | KeyError | IndexError | RuntimeError | ValueError

text \<open>
  Element-wise product of two rows under NumPy broadcasting of the last
  dimension, as in \<^verbatim>\<open>edges.src["h"] * edges.data["w"]\<close> of \<^verbatim>\<open>u_mul_e_udf\<close>:
  equal widths multiply pointwise, a width of one is stretched to the other.
\<close>

definition broadcast_dim :: "nat \<Rightarrow> nat \<Rightarrow> nat option" where
  "broadcast_dim a b =
     (if a = b then Some a else if a = 1 then Some b else if b = 1 then Some a else None)"

definition bmul :: "vec \<Rightarrow> vec \<Rightarrow> vec" where
  "bmul a b =
     (if length a = length b then map2 (*) a b
      else if length a = 1 then map (\<lambda>y. hd a * y) b
      else map (\<lambda>x. x * hd b) a)"

text \<open>\<^verbatim>\<open>torch.cat([a, b], dim=1)\<close>: the row counts must agree.\<close>

definition torch_cat1 :: "tensor \<Rightarrow> tensor \<Rightarrow> error + tensor" where
  "torch_cat1 a b =
     (if nrows a \<noteq> nrows b then Inl RuntimeError
      else Inr \<lparr>ncols = ncols a + ncols b, rows = map2 (@) (rows a) (rows b)\<rparr>)"

subsection \<open>The linear submodule\<close>

text \<open>
  \<^verbatim>\<open>nn.Linear(in_features, out_features)\<close> holds a weight of shape
  \<open>(out_features, in_features)\<close> and a bias of length \<open>out_features\<close>; applied
  to a row \<open>x\<close> it returns \<open>W x + b\<close>.  The initial values are drawn at random by
  torch, so they are arguments here.
\<close>

record Linear =
  in_features :: nat
  out_features :: nat
  weight :: "vec list"
  bias :: vec

definition nn_Linear :: "nat \<Rightarrow> nat \<Rightarrow> vec list \<Rightarrow> vec \<Rightarrow> Linear" where
  "nn_Linear i out W b = \<lparr>in_features = i, out_features = out, weight = W, bias = b\<rparr>"

definition wf_Linear :: "Linear \<Rightarrow> bool" where
  "wf_Linear l =
     (length (weight l) = out_features l \<and> length (bias l) = out_features l \<and>
      list_all (\<lambda>r. length r = in_features l) (weight l))"

definition dot :: "vec \<Rightarrow> vec \<Rightarrow> real" where
  "dot a b = sum_list (map2 (*) a b)"

definition affine :: "Linear \<Rightarrow> vec \<Rightarrow> vec" where
  "affine l x = map (\<lambda>(wr, b). dot wr x + b) (zip (weight l) (bias l))"

definition Linear_forward :: "Linear \<Rightarrow> tensor \<Rightarrow> error + tensor" where
  "Linear_forward l x =
     (if ncols x \<noteq> in_features l then Inl RuntimeError
      else Inr \<lparr>ncols = out_features l, rows = map (affine l) (rows x)\<rparr>)"

section \<open>Graphs with feature storage\<close>

text \<open>
  A graph has nodes \<open>0..<num_nodes\<close>, a list of directed edges in edge-id order
  and two feature stores, \<^verbatim>\<open>g.ndata\<close> and \<^verbatim>\<open>g.edata\<close>, from feature names to
  tensors.
\<close>

record graph =
  num_nodes :: nat
  edges :: "(nat \<times> nat) list"
  ndata :: "string \<rightharpoonup> tensor"
  edata :: "string \<rightharpoonup> tensor"

definition num_edges :: "graph \<Rightarrow> nat" where
  "num_edges g = length (edges g)"

definition valid_graph :: "graph \<Rightarrow> bool" where
  "valid_graph g = list_all (\<lambda>(u, v). u < num_nodes g \<and> v < num_nodes g) (edges g)"

text \<open>
  \<^verbatim>\<open>dgl.graph((u, v), num_nodes=n)\<close> as called in the link prediction
  notebook: the endpoints lists must have one length and every id must be below
  \<open>n\<close>, otherwise the library raises; the new graph stores no features.
\<close>

definition dgl_graph :: "nat list \<Rightarrow> nat list \<Rightarrow> nat \<Rightarrow> error + graph" where
  "dgl_graph us vs n =
     (if length us \<noteq> length vs then Inl DGLError
      else if list_all (\<lambda>i. i < n) us \<and> list_all (\<lambda>i. i < n) vs
        then Inr \<lparr>num_nodes = n, edges = zip us vs, ndata = Map.empty, edata = Map.empty\<rparr>
      else Inl DGLError)"

subsection \<open>Statements that may raise\<close>

text \<open>
  A statement runs on the graph and returns either a value or the exception it
  raised, with the graph as the statement left it.
\<close>

type_synonym 'a comp = "graph \<Rightarrow> (error + 'a) \<times> graph"

definition seq :: "'a comp \<Rightarrow> ('a \<Rightarrow> 'b comp) \<Rightarrow> 'b comp" where
  "seq m f g = (case m g of (Inl e, g') \<Rightarrow> (Inl e, g') | (Inr x, g') \<Rightarrow> f x g')"

definition pure :: "error + 'a \<Rightarrow> 'a comp" where
  "pure r g = (r, g)"

text \<open>\<^verbatim>\<open>g.ndata[k] = t\<close> and \<^verbatim>\<open>g.edata[k] = t\<close>: one row per node, per edge.\<close>

definition set_ndata :: "string \<Rightarrow> tensor \<Rightarrow> unit comp" where
  "set_ndata k t g =
     (if nrows t = num_nodes g then (Inr (), g\<lparr>ndata := (ndata g)(k \<mapsto> t)\<rparr>)
      else (Inl DGLError, g))"

definition set_edata :: "string \<Rightarrow> tensor \<Rightarrow> unit comp" where
  "set_edata k t g =
     (if nrows t = num_edges g then (Inr (), g\<lparr>edata := (edata g)(k \<mapsto> t)\<rparr>)
      else (Inl DGLError, g))"

definition get_ndata :: "string \<Rightarrow> tensor comp" where
  "get_ndata k g = (case ndata g k of None \<Rightarrow> (Inl KeyError, g) | Some t \<Rightarrow> (Inr t, g))"

definition get_edata :: "string \<Rightarrow> tensor comp" where
  "get_edata k g = (case edata g k of None \<Rightarrow> (Inl KeyError, g) | Some t \<Rightarrow> (Inr t, g))"

subsection \<open>Message and reduce functions\<close>

text \<open>
  The builtin functions the notebooks pass to \<^verbatim>\<open>update_all\<close> and
  \<^verbatim>\<open>apply_edges\<close>.  \<^verbatim>\<open>fn.copy_u(h, m)\<close> copies the source node's feature
  \<open>h\<close> as the message \<open>m\<close>; \<^verbatim>\<open>fn.u_mul_e(h, w, m)\<close> is the product of
  \<^verbatim>\<open>u_mul_e_udf\<close>; \<^verbatim>\<open>fn.u_dot_v(a, b, s)\<close> is the dot product of the two
  endpoints' features, which must have one width, a vector of one element per
  edge.
\<close>

datatype message_func =
    copy_u string string
  | u_mul_e string string string
  | u_dot_v string string string

datatype reduce_func = mean string string

fun message_out :: "message_func \<Rightarrow> string" where
  "message_out (copy_u h m) = m"
| "message_out (u_mul_e h w m) = m"
| "message_out (u_dot_v a b m) = m"

text \<open>
  Modelled from the spec: a graph object of the library cannot hold an edge
  whose endpoint is not a node (\<^verbatim>\<open>dgl.graph\<close> rejects it), so what message
  passing does with such an edge is decided by library code that is not part
  of the notebooks.  Following the spec, it fails with the graph library's
  error (the spec's InvalidGraph) before any message is computed.  The same
  guard covers a stored feature that does not have one row per node or per
  edge, which \<open>set_ndata\<close> and \<open>set_edata\<close> never store.  With the guard
  every row lookup below is in range.
\<close>

definition node_rows_ok :: "graph \<Rightarrow> tensor \<Rightarrow> bool" where
  "node_rows_ok g x = (valid_graph g \<and> nrows x = num_nodes g)"

fun apply_message :: "message_func \<Rightarrow> graph \<Rightarrow> error + tensor" where
  "apply_message (copy_u h m) g =
     (case ndata g h of None \<Rightarrow> Inl KeyError
      | Some x \<Rightarrow>
          if \<not> node_rows_ok g x then Inl DGLError
          else Inr \<lparr>ncols = ncols x, rows = map (\<lambda>(u, v). rows x ! u) (edges g)\<rparr>)"
| "apply_message (u_mul_e h w m) g =
     (case ndata g h of None \<Rightarrow> Inl KeyError
      | Some x \<Rightarrow>
        (case edata g w of None \<Rightarrow> Inl KeyError
         | Some y \<Rightarrow>
           if \<not> node_rows_ok g x \<or> nrows y \<noteq> num_edges g then Inl DGLError
           else
             (case broadcast_dim (ncols x) (ncols y) of None \<Rightarrow> Inl DGLError
              | Some d \<Rightarrow>
                  Inr \<lparr>ncols = d,
                       rows = map (\<lambda>((u, v), e). bmul (rows x ! u) (rows y ! e))
                                (zip (edges g) [0..<length (edges g)])\<rparr>)))"
| "apply_message (u_dot_v a b m) g =
     (case ndata g a of None \<Rightarrow> Inl KeyError
      | Some x \<Rightarrow>
        (case ndata g b of None \<Rightarrow> Inl KeyError
         | Some y \<Rightarrow>
           if \<not> node_rows_ok g x \<or> \<not> node_rows_ok g y then Inl DGLError
           else if ncols x \<noteq> ncols y then Inl DGLError
           else
             Inr \<lparr>ncols = 1,
                  rows = map (\<lambda>(u, v). [dot (rows x ! u) (rows y ! v)]) (edges g)\<rparr>))"

text \<open>
  The mailbox of node \<open>v\<close>: the messages of the edges that end in \<open>v\<close>, in
  edge order.
\<close>

definition mailbox :: "(nat \<times> nat) list \<Rightarrow> vec list \<Rightarrow> nat \<Rightarrow> vec list" where
  "mailbox es ms v = map snd (filter (\<lambda>((u, v'), m). v' = v) (zip es ms))"

definition vsum :: "nat \<Rightarrow> vec list \<Rightarrow> vec" where
  "vsum d ms = map (\<lambda>j. sum_list (map (\<lambda>m. m ! j) ms)) [0..<d]"

text \<open>
  \<^verbatim>\<open>mean_udf\<close>: \<^verbatim>\<open>nodes.mailbox["m"].mean(1)\<close>, the mean over the stacked
  messages of a node.  The library calls a reduce function only on nodes that
  received a message, so the mailbox is not empty here.
\<close>

definition mean_udf :: "nat \<Rightarrow> vec list \<Rightarrow> vec" where
  "mean_udf d ms = map (\<lambda>s. s / real (length ms)) (vsum d ms)"

text \<open>
  Modelled from the spec: what the builtin \<^verbatim>\<open>fn.mean\<close> stores at a node
  without incoming edges is decided inside the graph library, which is not
  part of the notebooks.  The spec's default is the zero vector; the builtin
  is taken to divide the sum of the messages by the in-degree, with an
  in-degree of zero counted as one, which gives that default.
\<close>

definition fn_mean :: "nat \<Rightarrow> vec list \<Rightarrow> vec" where
  "fn_mean d ms = map (\<lambda>s. s / real (max (length ms) 1)) (vsum d ms)"

text \<open>
  \<^verbatim>\<open>g.update_all(message_func, reduce_func)\<close> computes the message of every
  edge and stores the reduction of each node's mailbox as a node feature; the
  reduce function reads the message field that the message function wrote
  (\<open>m\<close> in both layers); naming another field is an error of the graph
  library.
  \<^verbatim>\<open>g.apply_edges(func)\<close> stores the computed value as an edge feature.
\<close>

fun update_all :: "message_func \<Rightarrow> reduce_func \<Rightarrow> unit comp" where
  "update_all mf (mean m out) g =
     (if message_out mf \<noteq> m then (Inl DGLError, g)
      else
        (case apply_message mf g of Inl e \<Rightarrow> (Inl e, g)
         | Inr msgs \<Rightarrow>
             (Inr (),
              g\<lparr>ndata := (ndata g)(out \<mapsto>
                 \<lparr>ncols = ncols msgs,
                  rows = map (\<lambda>v. fn_mean (ncols msgs) (mailbox (edges g) (rows msgs) v))
                           [0..<num_nodes g]\<rparr>)\<rparr>)))"

definition apply_edges :: "message_func \<Rightarrow> unit comp" where
  "apply_edges mf g =
     (case apply_message mf g of Inl e \<Rightarrow> (Inl e, g)
      | Inr msgs \<Rightarrow> (Inr (), g\<lparr>edata := (edata g)(message_out mf \<mapsto> msgs)\<rparr>))"

text \<open>
  Modelled from the spec: \<^verbatim>\<open>with g.local_scope():\<close> is a context manager of
  the graph library, whose code is not part of the notebooks.  Following the
  spec, the feature assignments made inside the block are discarded on every
  exit path, also when the block raises: the two feature stores are put back
  as they were on entry.
\<close>

definition local_scope :: "'a comp \<Rightarrow> 'a comp" where
  "local_scope body g =
     (case body g of (r, g') \<Rightarrow> (r, g'\<lparr>ndata := ndata g, edata := edata g\<rparr>))"

section \<open>The convolution modules of the message passing notebook\<close>

text \<open>
  \<^verbatim>\<open>SAGEConv(in_feat, out_feat)\<close> and \<^verbatim>\<open>WeightedSAGEConv(in_feat, out_feat)\<close>
  both consist of the submodule \<^verbatim>\<open>nn.Linear(in_feat * 2, out_feat)\<close>.
\<close>

type_synonym SAGEConv = Linear

definition SAGEConv_init :: "nat \<Rightarrow> nat \<Rightarrow> vec list \<Rightarrow> vec \<Rightarrow> SAGEConv" where
  "SAGEConv_init in_feat out_feat W b = nn_Linear (in_feat * 2) out_feat W b"

definition SAGEConv_forward :: "SAGEConv \<Rightarrow> graph \<Rightarrow> tensor \<Rightarrow> (error + tensor) \<times> graph" where
  "SAGEConv_forward self g h =
     local_scope
       (seq (set_ndata ''h'' h) (\<lambda>_.
        seq (update_all (copy_u ''h'' ''m'') (mean ''m'' ''h_N'')) (\<lambda>_.
        seq (get_ndata ''h_N'') (\<lambda>h_N.
        seq (pure (torch_cat1 h h_N)) (\<lambda>h_total.
        pure (Linear_forward self h_total)))))) g"

definition WeightedSAGEConv_forward ::
    "SAGEConv \<Rightarrow> graph \<Rightarrow> tensor \<Rightarrow> tensor \<Rightarrow> (error + tensor) \<times> graph" where
  "WeightedSAGEConv_forward self g h w =
     local_scope
       (seq (set_ndata ''h'' h) (\<lambda>_.
        seq (set_edata ''w'' w) (\<lambda>_.
        seq (update_all (u_mul_e ''h'' ''w'' ''m'') (mean ''m'' ''h_N'')) (\<lambda>_.
        seq (get_ndata ''h_N'') (\<lambda>h_N.
        seq (pure (torch_cat1 h h_N)) (\<lambda>h_total.
        pure (Linear_forward self h_total))))))) g"

text \<open>
  The statements of the two forward passes up to \<^verbatim>\<open>h_N = g.ndata["h_N"]\<close>:
  the aggregated neighbour features, read inside the scope.
\<close>

definition SAGEConv_h_N :: "graph \<Rightarrow> tensor \<Rightarrow> (error + tensor) \<times> graph" where
  "SAGEConv_h_N g h =
     (seq (set_ndata ''h'' h) (\<lambda>_.
      seq (update_all (copy_u ''h'' ''m'') (mean ''m'' ''h_N'')) (\<lambda>_.
      get_ndata ''h_N''))) g"

definition WeightedSAGEConv_h_N :: "graph \<Rightarrow> tensor \<Rightarrow> tensor \<Rightarrow> (error + tensor) \<times> graph" where
  "WeightedSAGEConv_h_N g h w =
     (seq (set_ndata ''h'' h) (\<lambda>_.
      seq (set_edata ''w'' w) (\<lambda>_.
      seq (update_all (u_mul_e ''h'' ''w'' ''m'') (mean ''m'' ''h_N'')) (\<lambda>_.
      get_ndata ''h_N'')))) g"

text \<open>
  The two networks called \<^verbatim>\<open>Model\<close> in the message passing notebook: two
  layers with \<^verbatim>\<open>F.relu\<close> between them.  The second one passes
  \<^verbatim>\<open>torch.ones(g.num_edges(), 1)\<close> as the edge weight of both layers.
\<close>

definition F_relu :: "tensor \<Rightarrow> tensor" where
  "F_relu t = t\<lparr>rows := map (map (max 0)) (rows t)\<rparr>"

record Model =
  conv1 :: SAGEConv
  conv2 :: SAGEConv

definition Model_forward :: "Model \<Rightarrow> graph \<Rightarrow> tensor \<Rightarrow> (error + tensor) \<times> graph" where
  "Model_forward self g in_feat =
     seq (\<lambda>g. SAGEConv_forward (conv1 self) g in_feat) (\<lambda>h g.
       SAGEConv_forward (conv2 self) g (F_relu h)) g"

definition Model_forward_weighted ::
    "Model \<Rightarrow> graph \<Rightarrow> tensor \<Rightarrow> (error + tensor) \<times> graph" where
  "Model_forward_weighted self g in_feat =
     seq (\<lambda>g. WeightedSAGEConv_forward (conv1 self) g in_feat (torch_ones (num_edges g) 1))
       (\<lambda>h g.
       WeightedSAGEConv_forward (conv2 self) g (F_relu h) (torch_ones (num_edges g) 1)) g"

section \<open>The dot product predictor of the link prediction notebook\<close>

text \<open>
  \<^verbatim>\<open>DotPredictor.forward\<close>: the score of every edge of \<open>g\<close>, the first (and
  only) column of the edge feature \<^verbatim>\<open>score\<close>.
\<close>

definition column0 :: "tensor \<Rightarrow> error + real list" where
  "column0 t = (if ncols t = 0 then Inl IndexError else Inr (map hd (rows t)))"

definition DotPredictor_forward :: "graph \<Rightarrow> tensor \<Rightarrow> (error + real list) \<times> graph" where
  "DotPredictor_forward g h =
     local_scope
       (seq (set_ndata ''h'' h) (\<lambda>_.
        seq (apply_edges (u_dot_v ''h'' ''h'' ''score'')) (\<lambda>_.
        seq (get_edata ''score'') (\<lambda>score.
        pure (column0 score))))) g"

section \<open>Negative edges of the link prediction notebook\<close>

text \<open>
  The cell that prepares the training and test sets.  \<^verbatim>\<open>adj\<close> is the sparse
  matrix with a one for every edge, of the shape SciPy infers from the largest
  source and destination id; \<^verbatim>\<open>adj.todense()\<close> adds the entries of repeated
  edges, so its entry \<open>(i, j)\<close> is the number of edges from \<open>i\<close> to \<open>j\<close>.
  \<^verbatim>\<open>adj_neg = 1 - adj.todense() - np.eye(g.num_nodes())\<close> broadcasts a
  dimension of size one against the identity matrix and fails on any other
  shape mismatch.  \<^verbatim>\<open>np.where(adj_neg != 0)\<close> lists the non-zero positions row
  by row.
\<close>

definition list_max :: "nat list \<Rightarrow> nat" where
  "list_max xs = fold max xs 0"

definition adj_neg :: "(nat \<times> nat) list \<Rightarrow> nat \<Rightarrow> nat \<Rightarrow> nat \<Rightarrow> nat \<Rightarrow> int" where
  "adj_neg es a b i j =
     1 - int (count_list es (if a = 1 then 0 else i, if b = 1 then 0 else j))
       - (if i = j then 1 else 0)"

definition negative_pairs :: "graph \<Rightarrow> error + (nat \<times> nat) list" where
  "negative_pairs g =
     (let es = edges g; n = num_nodes g in
      if es = [] then Inl ValueError
      else
        let a = list_max (map fst es) + 1; b = list_max (map snd es) + 1 in
        if (a = n \<or> a = 1) \<and> (b = n \<or> b = 1)
        then Inr (concat (map (\<lambda>i. map (\<lambda>j. (i, j))
                    (filter (\<lambda>j. adj_neg es a b i j \<noteq> 0) [0..<n])) [0..<n]))
        else Inl ValueError)"

text \<open>
  \<^verbatim>\<open>neg_eids = np.random.choice(len(neg_u), g.num_edges())\<close> draws one index
  below \<open>len(neg_u)\<close> per edge of the graph, independently and with
  replacement (the default of \<^verbatim>\<open>np.random.choice\<close>), so every list of that
  length with entries in range is a possible outcome.  The outcome of the draw
  is an argument of the model; its entries index the candidate list in range.
\<close>

definition possible_choice :: "nat \<Rightarrow> nat \<Rightarrow> nat list \<Rightarrow> bool" where
  "possible_choice a k xs = (length xs = k \<and> list_all (\<lambda>i. i < a) xs)"

text \<open>
  \<^verbatim>\<open>test_size = int(len(eids) * 0.1)\<close>, a tenth of the edges rounded down.
\<close>

definition test_size :: "graph \<Rightarrow> nat" where
  "test_size g = num_edges g div 10"

text \<open>
  The sampled pairs \<^verbatim>\<open>(neg_u[neg_eids], neg_v[neg_eids])\<close>; the notebook
  gives the first \<open>test_size\<close> of them to the test set and the rest to the
  training set.
\<close>

definition sample_negative :: "graph \<Rightarrow> nat list \<Rightarrow> error + (nat \<times> nat) list" where
  "sample_negative g neg_eids =
     (case negative_pairs g of Inl e \<Rightarrow> Inl e
      | Inr neg \<Rightarrow>
          if neg = [] \<and> 0 < num_edges g then Inl ValueError
          else Inr (map (\<lambda>i. neg ! i) neg_eids))"

definition test_neg :: "graph \<Rightarrow> nat list \<Rightarrow> error + (nat \<times> nat) list" where
  "test_neg g neg_eids = map_sum id (take (test_size g)) (sample_negative g neg_eids)"

definition train_neg :: "graph \<Rightarrow> nat list \<Rightarrow> error + (nat \<times> nat) list" where
  "train_neg g neg_eids = map_sum id (drop (test_size g)) (sample_negative g neg_eids)"

section \<open>Derived forms used in the statements and proofs\<close>

text \<open>
  A statement keeps the structure of the graph when it changes neither the
  node count nor the edges.
\<close>
definition keeps :: "'a comp \<Rightarrow> bool" where
  "keeps m = (\<forall>g. num_nodes (snd (m g)) = num_nodes g \<and> edges (snd (m g)) = edges g)"

text \<open>
  The messages of \<^verbatim>\<open>fn.copy_u\<close> for a feature matrix \<open>h\<close>: one row per edge,
  the feature row of its source.
\<close>
definition copy_u_rows :: "graph \<Rightarrow> tensor \<Rightarrow> vec list" where
  "copy_u_rows g h = map (\<lambda>(u, v). rows h ! u) (edges g)"

text \<open>
  The messages of \<^verbatim>\<open>fn.u_mul_e\<close>: the source row times the weight row of the
  edge.
\<close>
definition u_mul_e_rows :: "graph \<Rightarrow> tensor \<Rightarrow> tensor \<Rightarrow> vec list" where
  "u_mul_e_rows g h w =
     map (\<lambda>((u, v), e). bmul (rows h ! u) (rows w ! e)) (zip (edges g) [0..<length (edges g)])"

text \<open>
  The node feature that the mean reduction stores for the messages \<open>ms\<close> of
  width \<open>d\<close>.
\<close>
definition agg :: "graph \<Rightarrow> nat \<Rightarrow> vec list \<Rightarrow> tensor" where
  "agg g d ms =
     \<lparr>ncols = d, rows = map (\<lambda>v. fn_mean d (mailbox (edges g) ms v)) [0..<num_nodes g]\<rparr>"

text \<open>
  The last two statements of a forward pass: the concatenation and the linear
  submodule.
\<close>
definition combine :: "SAGEConv \<Rightarrow> tensor \<Rightarrow> tensor \<Rightarrow> error + tensor" where
  "combine self h h_N =
     (if nrows h \<noteq> nrows h_N then Inl RuntimeError
      else if ncols h + ncols h_N \<noteq> in_features self then Inl RuntimeError
      else Inr \<lparr>ncols = out_features self,
                rows = map (affine self) (map2 (@) (rows h) (rows h_N))\<rparr>)"

text \<open>
  The sources of the edges that end in \<open>v\<close>, in edge order.
\<close>
definition in_srcs :: "graph \<Rightarrow> nat \<Rightarrow> nat list" where
  "in_srcs g v = map fst (filter (\<lambda>(u, v'). v' = v) (edges g))"

text \<open>
  The edges that end in \<open>v\<close>, each as its source and its edge id.
\<close>
definition in_edges :: "graph \<Rightarrow> nat \<Rightarrow> (nat \<times> nat) list" where
  "in_edges g v =
     map (\<lambda>((u, v'), e). (u, e))
       (filter (\<lambda>((u, v'), e). v' = v) (zip (edges g) [0..<length (edges g)]))"

text \<open>
  The graph and the features of the spec's example.
\<close>
definition g3 :: graph where
  "g3 = \<lparr>num_nodes = 3, edges = [(0, 1), (2, 1)], ndata = Map.empty, edata = Map.empty\<rparr>"

definition X3 :: tensor where
  "X3 = \<lparr>ncols = 2, rows = [[1, 0], [0, 0], [0, 1]]\<rparr>"

text \<open>
  A layer \<^verbatim>\<open>SAGEConv(2, 2)\<close> with fixed parameters, and the example graph
  without its edges.
\<close>
definition conv3 :: SAGEConv where
  "conv3 = SAGEConv_init 2 2 [[1, 0, 2, 0], [0, 1, 0, 2]] [0, 1]"

definition g0 :: graph where
  "g0 = \<lparr>num_nodes = 3, edges = [], ndata = Map.empty, edata = Map.empty\<rparr>"

text \<open>
  Two nodes, one self-loop.
\<close>
definition g1 :: graph where
  "g1 = \<lparr>num_nodes = 2, edges = [(1, 1)], ndata = Map.empty, edata = Map.empty\<rparr>"

definition X1 :: tensor where
  "X1 = \<lparr>ncols = 2, rows = [[5, 6], [7, 8]]\<rparr>"

text \<open>
  One candidate edge between the nodes with features \<open>[1, 2]\<close> and \<open>[3, 4]\<close>.
\<close>
definition g2 :: graph where
  "g2 = \<lparr>num_nodes = 2, edges = [(0, 1)], ndata = Map.empty, edata = Map.empty\<rparr>"

definition X2 :: tensor where
  "X2 = \<lparr>ncols = 2, rows = [[1, 2], [3, 4]]\<rparr>"


text \<open>
  A graph with a self-loop, and a graph without self-loops and repeated edges
  (a path on three nodes, each link in both directions).
\<close>
definition g_loop :: graph where
  "g_loop = \<lparr>num_nodes = 2, edges = [(0, 1), (1, 0), (1, 1)], ndata = Map.empty,
             edata = Map.empty\<rparr>"

definition g_path :: graph where
  "g_path = \<lparr>num_nodes = 3, edges = [(0, 1), (1, 0), (1, 2), (2, 1)], ndata = Map.empty,
             edata = Map.empty\<rparr>"

section \<open>Properties\<close>

lemma seq_Inl: "m g = (Inl e, g') \<Longrightarrow> seq m f g = (Inl e, g')"
  by (simp add: seq_def)

lemma keeps_seq:
  assumes m: "keeps m" and f: "\<And>x. keeps (f x)"
  shows "keeps (seq m f)"
  unfolding keeps_def
proof (intro allI)
  fix g
  obtain r g' where mg: "m g = (r, g')" by (cases "m g")
  from m mg have g': "num_nodes g' = num_nodes g" "edges g' = edges g"
    unfolding keeps_def by (metis snd_conv)+
  show "num_nodes (snd (seq m f g)) = num_nodes g \<and> edges (snd (seq m f g)) = edges g"
  proof (cases r)
    case (Inl e)
    with mg g' show ?thesis by (simp add: seq_def)
  next
    case (Inr x)
    with mg have "seq m f g = f x g'" by (simp add: seq_def)
    moreover from f[of x] have "num_nodes (snd (f x g')) = num_nodes g'" "edges (snd (f x g')) = edges g'"
      unfolding keeps_def by blast+
    ultimately show ?thesis using g' by simp
  qed
qed

lemma keeps_pure: "keeps (pure r)"
  by (simp add: keeps_def pure_def)

lemma keeps_set_ndata: "keeps (set_ndata k t)"
  by (simp add: keeps_def set_ndata_def)

lemma keeps_set_edata: "keeps (set_edata k t)"
  by (simp add: keeps_def set_edata_def)

lemma keeps_get_ndata: "keeps (get_ndata k)"
  by (simp add: keeps_def get_ndata_def split: option.splits)

lemma keeps_get_edata: "keeps (get_edata k)"
  by (simp add: keeps_def get_edata_def split: option.splits)

lemma keeps_update_all: "keeps (update_all mf rf)"
  by (cases rf) (simp add: keeps_def split: sum.splits)

lemma keeps_apply_edges: "keeps (apply_edges mf)"
  by (simp add: keeps_def apply_edges_def split: sum.splits)

lemma local_scope_keeps: "keeps m \<Longrightarrow> snd (local_scope m g) = g"
  by (cases "m g") (auto simp: keeps_def local_scope_def dest!: spec[of _ g])

lemmas keeps_intros = keeps_seq keeps_pure keeps_set_ndata keeps_set_edata keeps_get_ndata
  keeps_get_edata keeps_update_all keeps_apply_edges

lemma scope_body_assigns:
  "nrows h = num_nodes g \<Longrightarrow>
   ndata (snd (seq (set_ndata ''h'' h) (\<lambda>_.
     update_all (copy_u ''h'' ''m'') (mean ''m'' ''h_N'')) g)) ''h'' = Some h"
  by (simp add: seq_def set_ndata_def)

text \<open>
  C2.  A forward pass of either layer returns the graph exactly as it received
  it, whether it returns a feature matrix or an error: the features assigned
  inside the scope (\<open>h\<close>, \<open>w\<close>, \<open>h_N\<close>) are discarded on exit, and the node
  count and the edges are never touched.  The input matrix is a value that no
  statement of the pass changes.
\<close>

theorem forward_leaves_graph_unchanged:
  "snd (SAGEConv_forward self g h) = g \<and> snd (WeightedSAGEConv_forward self g h w) = g"
  unfolding SAGEConv_forward_def WeightedSAGEConv_forward_def
  by (intro conjI local_scope_keeps keeps_intros)

lemma nrows_agg [simp]: "nrows (agg g d ms) = num_nodes g"
  by (simp add: agg_def nrows_def)

lemma ncols_agg [simp]: "ncols (agg g d ms) = d"
  by (simp add: agg_def)

lemma valid_graph_update [simp]:
  "valid_graph (g\<lparr>ndata := nd\<rparr>) = valid_graph g"
  "valid_graph (g\<lparr>edata := ed\<rparr>) = valid_graph g"
  by (simp_all add: valid_graph_def)

lemma SAGEConv_h_N_run:
  "SAGEConv_h_N g h =
     (if nrows h \<noteq> num_nodes g then (Inl DGLError, g)
      else if \<not> valid_graph g then (Inl DGLError, g\<lparr>ndata := (ndata g)(''h'' \<mapsto> h)\<rparr>)
      else (Inr (agg g (ncols h) (copy_u_rows g h)),
            g\<lparr>ndata := (ndata g)(''h'' \<mapsto> h, ''h_N'' \<mapsto> agg g (ncols h) (copy_u_rows g h))\<rparr>))"
  by (simp add: SAGEConv_h_N_def seq_def set_ndata_def get_ndata_def agg_def copy_u_rows_def
      node_rows_ok_def)

lemma seq_assoc: "seq (seq m f) k = seq m (\<lambda>x. seq (f x) k)"
  by (rule ext) (simp add: seq_def split: prod.splits sum.splits)

lemma seq_pure: "seq (pure r) f g = (case r of Inl e \<Rightarrow> (Inl e, g) | Inr x \<Rightarrow> f x g)"
  by (simp add: seq_def pure_def split: sum.splits)

lemma tail_combine:
  "seq (pure (torch_cat1 h h_N)) (\<lambda>h_total. pure (Linear_forward self h_total)) g =
     (combine self h h_N, g)"
  by (simp add: seq_pure torch_cat1_def combine_def Linear_forward_def pure_def)

lemma SAGEConv_forward_h_N:
  "SAGEConv_forward self g h =
     local_scope (seq (\<lambda>g. SAGEConv_h_N g h) (\<lambda>h_N. pure (combine self h h_N))) g"
proof -
  have "(\<lambda>h_N. seq (pure (torch_cat1 h h_N)) (\<lambda>h_total. pure (Linear_forward self h_total)))
      = (\<lambda>h_N. pure (combine self h h_N))"
    by (intro ext) (simp add: tail_combine pure_def)
  then show ?thesis
    unfolding SAGEConv_forward_def SAGEConv_h_N_def seq_assoc by simp
qed

lemma SAGEConv_forward_run:
  "SAGEConv_forward self g h =
     (if nrows h \<noteq> num_nodes g \<or> \<not> valid_graph g then Inl DGLError
      else combine self h (agg g (ncols h) (copy_u_rows g h)), g)"
  unfolding SAGEConv_forward_h_N
  by (simp add: local_scope_def seq_def SAGEConv_h_N_run pure_def)

lemma update_all_u_mul_e:
  assumes "ndata g ''h'' = Some h" "edata g ''w'' = Some w"
    and "valid_graph g" "nrows h = num_nodes g" "nrows w = num_edges g"
  shows "update_all (u_mul_e ''h'' ''w'' ''m'') (mean ''m'' ''h_N'') g =
     (case broadcast_dim (ncols h) (ncols w) of None \<Rightarrow> (Inl DGLError, g)
      | Some d \<Rightarrow> (Inr (), g\<lparr>ndata := (ndata g)(''h_N'' \<mapsto> agg g d (u_mul_e_rows g h w))\<rparr>))"
  using assms by (simp add: agg_def u_mul_e_rows_def node_rows_ok_def split: option.splits)

lemma update_all_u_mul_e_invalid:
  assumes "ndata g ''h'' = Some h" "edata g ''w'' = Some w" "\<not> valid_graph g"
  shows "update_all (u_mul_e ''h'' ''w'' ''m'') (mean ''m'' ''h_N'') g = (Inl DGLError, g)"
  using assms by (simp add: node_rows_ok_def)

lemma WeightedSAGEConv_h_N_run:
  "WeightedSAGEConv_h_N g h w =
     (if nrows h \<noteq> num_nodes g then (Inl DGLError, g)
      else if nrows w \<noteq> num_edges g then (Inl DGLError, g\<lparr>ndata := (ndata g)(''h'' \<mapsto> h)\<rparr>)
      else if \<not> valid_graph g
      then (Inl DGLError, g\<lparr>ndata := (ndata g)(''h'' \<mapsto> h), edata := (edata g)(''w'' \<mapsto> w)\<rparr>)
      else
        (case broadcast_dim (ncols h) (ncols w) of
           None \<Rightarrow> (Inl DGLError, g\<lparr>ndata := (ndata g)(''h'' \<mapsto> h), edata := (edata g)(''w'' \<mapsto> w)\<rparr>)
         | Some d \<Rightarrow>
            (Inr (agg g d (u_mul_e_rows g h w)),
             g\<lparr>ndata := (ndata g)(''h'' \<mapsto> h, ''h_N'' \<mapsto> agg g d (u_mul_e_rows g h w)),
               edata := (edata g)(''w'' \<mapsto> w)\<rparr>)))"
proof (cases "nrows h = num_nodes g")
  case False
  then show ?thesis by (simp add: WeightedSAGEConv_h_N_def seq_def set_ndata_def)
next
  case h: True
  let ?g1 = "g\<lparr>ndata := (ndata g)(''h'' \<mapsto> h)\<rparr>"
  have s1: "set_ndata ''h'' h g = (Inr (), ?g1)" using h by (simp add: set_ndata_def)
  show ?thesis
  proof (cases "nrows w = num_edges g")
    case False
    then have "set_edata ''w'' w ?g1 = (Inl DGLError, ?g1)"
      by (simp add: set_edata_def num_edges_def)
    with h False show ?thesis
      by (simp add: WeightedSAGEConv_h_N_def seq_def s1 del: update_all.simps)
  next
    case w: True
    let ?g2 = "?g1\<lparr>edata := (edata g)(''w'' \<mapsto> w)\<rparr>"
    have s2: "set_edata ''w'' w ?g1 = (Inr (), ?g2)"
      using w by (simp add: set_edata_def num_edges_def)
    show ?thesis
    proof (cases "valid_graph g")
      case False
      have "update_all (u_mul_e ''h'' ''w'' ''m'') (mean ''m'' ''h_N'') ?g2 = (Inl DGLError, ?g2)"
        by (rule update_all_u_mul_e_invalid) (simp_all add: False)
      with h w False show ?thesis
        by (simp add: WeightedSAGEConv_h_N_def seq_def s1 s2 del: update_all.simps)
    next
      case v: True
    have u: "update_all (u_mul_e ''h'' ''w'' ''m'') (mean ''m'' ''h_N'') ?g2 =
     (case broadcast_dim (ncols h) (ncols w) of None \<Rightarrow> (Inl DGLError, ?g2)
      | Some d \<Rightarrow> (Inr (), ?g2\<lparr>ndata := (ndata ?g2)(''h_N'' \<mapsto> agg ?g2 d (u_mul_e_rows ?g2 h w))\<rparr>))"
      using v h w by (intro update_all_u_mul_e) (simp_all add: num_edges_def)
    have a: "agg ?g2 d (u_mul_e_rows ?g2 h w) = agg g d (u_mul_e_rows g h w)" for d
      by (simp add: agg_def u_mul_e_rows_def)
    show ?thesis
    proof (cases "broadcast_dim (ncols h) (ncols w)")
      case None
      with u have "update_all (u_mul_e ''h'' ''w'' ''m'') (mean ''m'' ''h_N'') ?g2 = (Inl DGLError, ?g2)"
        by simp
      with h w v None show ?thesis
        by (simp add: WeightedSAGEConv_h_N_def seq_def s1 s2 del: update_all.simps)
    next
      case (Some d)
      let ?g3 = "?g2\<lparr>ndata := (ndata ?g2)(''h_N'' \<mapsto> agg g d (u_mul_e_rows g h w))\<rparr>"
      from u Some a have s3: "update_all (u_mul_e ''h'' ''w'' ''m'') (mean ''m'' ''h_N'') ?g2 = (Inr (), ?g3)"
        by simp
      have s4: "get_ndata ''h_N'' ?g3 = (Inr (agg g d (u_mul_e_rows g h w)), ?g3)"
        by (simp add: get_ndata_def)
      have "WeightedSAGEConv_h_N g h w = (Inr (agg g d (u_mul_e_rows g h w)), ?g3)"
        by (simp add: WeightedSAGEConv_h_N_def seq_def s1 s2 s3 get_ndata_def del: update_all.simps)
      with h w v Some show ?thesis
        by simp
    qed
    qed
  qed
qed

lemma WeightedSAGEConv_forward_h_N:
  "WeightedSAGEConv_forward self g h w =
     local_scope (seq (\<lambda>g. WeightedSAGEConv_h_N g h w) (\<lambda>h_N. pure (combine self h h_N))) g"
proof -
  have "(\<lambda>h_N. seq (pure (torch_cat1 h h_N)) (\<lambda>h_total. pure (Linear_forward self h_total)))
      = (\<lambda>h_N. pure (combine self h h_N))"
    by (intro ext) (simp add: tail_combine pure_def)
  then show ?thesis
    unfolding WeightedSAGEConv_forward_def WeightedSAGEConv_h_N_def seq_assoc by simp
qed

lemma WeightedSAGEConv_forward_run:
  "WeightedSAGEConv_forward self g h w =
     (if nrows h \<noteq> num_nodes g \<or> nrows w \<noteq> num_edges g \<or> \<not> valid_graph g
      then Inl DGLError
      else
        (case broadcast_dim (ncols h) (ncols w) of None \<Rightarrow> Inl DGLError
         | Some d \<Rightarrow> combine self h (agg g d (u_mul_e_rows g h w))), g)"
  unfolding WeightedSAGEConv_forward_h_N
  by (simp add: local_scope_def seq_def WeightedSAGEConv_h_N_run pure_def split: option.splits)

lemma length_vsum [simp]: "length (vsum d ms) = d"
  by (simp add: vsum_def)

lemma length_fn_mean [simp]: "length (fn_mean d ms) = d"
  by (simp add: fn_mean_def)

lemma fn_mean_nth:
  "j < d \<Longrightarrow> fn_mean d ms ! j = sum_list (map (\<lambda>m. m ! j) ms) / real (max (length ms) 1)"
  by (simp add: fn_mean_def vsum_def)

lemma fn_mean_Nil: "fn_mean d [] = replicate d 0"
  by (simp add: fn_mean_def vsum_def map_replicate_const)

lemma fn_mean_mean_udf: "ms \<noteq> [] \<Longrightarrow> fn_mean d ms = mean_udf d ms"
  by (cases ms) (simp_all add: fn_mean_def mean_udf_def)

lemma mailbox_copy_u:
  "mailbox (edges g) (copy_u_rows g h) v = map (\<lambda>u. rows h ! u) (in_srcs g v)"
proof -
  have "mailbox es (map (\<lambda>(u, v). rows h ! u) es) v
      = map (\<lambda>u. rows h ! u) (map fst (filter (\<lambda>(u, v'). v' = v) es))" for es
    unfolding mailbox_def by (induction es) auto
  then show ?thesis by (simp add: copy_u_rows_def in_srcs_def)
qed

lemma mailbox_zip:
  "length es = length ns \<Longrightarrow>
   mailbox es (map F (zip es ns)) v = map F (filter (\<lambda>((u, v'), e). v' = v) (zip es ns))"
  unfolding mailbox_def
  by (induction es ns rule: list_induct2) auto

lemma mailbox_u_mul_e:
  "mailbox (edges g) (u_mul_e_rows g h w) v =
     map (\<lambda>(u, e). bmul (rows h ! u) (rows w ! e)) (in_edges g v)"
  unfolding u_mul_e_rows_def in_edges_def
  by (subst mailbox_zip) (simp_all add: comp_def case_prod_unfold)

lemma rows_agg_nth:
  "v < num_nodes g \<Longrightarrow> rows (agg g d ms) ! v = fn_mean d (mailbox (edges g) ms v)"
  by (simp add: agg_def)

lemma wf_agg [simp]: "wf_tensor (agg g d ms)"
  by (simp add: wf_tensor_def agg_def list_all_iff)

lemma in_edges_valid:
  assumes "valid_graph g" "(u, e) \<in> set (in_edges g v)"
  shows "u < num_nodes g \<and> e < num_edges g"
proof -
  from assms(2) obtain v' where "((u, v'), e) \<in> set (zip (edges g) [0..<length (edges g)])"
    by (auto simp: in_edges_def)
  then have "(u, v') \<in> set (edges g)" "e < length (edges g)"
    by (auto dest: set_zip_leftD set_zip_rightD)
  with assms(1) show ?thesis
    by (auto simp: valid_graph_def list_all_iff num_edges_def)
qed

lemma agg_copy_u_entry:
  assumes "v < num_nodes g" "j < ncols h"
  shows "rows (agg g (ncols h) (copy_u_rows g h)) ! v ! j =
           (if in_srcs g v = [] then 0
            else (\<Sum>u\<leftarrow>in_srcs g v. rows h ! u ! j) / real (length (in_srcs g v)))"
  using assms
  by (cases "in_srcs g v")
     (simp_all add: rows_agg_nth mailbox_copy_u fn_mean_nth comp_def)

lemma wf_tensor_nth: "wf_tensor t \<Longrightarrow> i < nrows t \<Longrightarrow> length (rows t ! i) = ncols t"
  by (simp add: wf_tensor_def list_all_length nrows_def)

lemma bmul_nth:
  assumes "j < length a" "length b = length a \<or> length b = 1"
  shows "bmul a b ! j = a ! j * b ! (if length b = 1 then 0 else j)"
proof (cases "length a = length b")
  case True
  with assms show ?thesis by (auto simp: bmul_def)
next
  case False
  with assms have b: "length b = 1" by auto
  then have "hd b = b ! 0" by (cases b) simp_all
  with False b assms show ?thesis by (auto simp: bmul_def)
qed

lemma broadcast_dim_weight:
  "c = 1 \<or> c = d \<Longrightarrow> broadcast_dim d c = Some d"
  by (auto simp: broadcast_dim_def)

lemma agg_u_mul_e_entry:
  assumes g: "valid_graph g" and h: "nrows h = num_nodes g" "wf_tensor h"
    and w: "nrows w = num_edges g" "wf_tensor w" "ncols w = 1 \<or> ncols w = ncols h"
    and v: "v < num_nodes g" and j: "j < ncols h"
  shows "rows (agg g (ncols h) (u_mul_e_rows g h w)) ! v ! j =
           (if in_edges g v = [] then 0
            else (\<Sum>(u, e)\<leftarrow>in_edges g v.
                    rows h ! u ! j * rows w ! e ! (if ncols w = 1 then 0 else j))
                 / real (length (in_edges g v)))"
proof -
  have m: "bmul (rows h ! u) (rows w ! e) ! j =
             rows h ! u ! j * rows w ! e ! (if ncols w = 1 then 0 else j)"
    if "(u, e) \<in> set (in_edges g v)" for u e
  proof -
    from in_edges_valid[OF g that] h w have
      "length (rows h ! u) = ncols h" "length (rows w ! e) = ncols w"
      by (simp_all add: wf_tensor_nth)
    with j w(3) show ?thesis by (subst bmul_nth) auto
  qed
  have "map (\<lambda>m. m ! j) (map (\<lambda>(u, e). bmul (rows h ! u) (rows w ! e)) (in_edges g v))
      = map (\<lambda>(u, e). rows h ! u ! j * rows w ! e ! (if ncols w = 1 then 0 else j))
          (in_edges g v)"
    using m by (auto simp: comp_def)
  then show ?thesis
    using v j
    by (cases "in_edges g v")
       (simp_all add: rows_agg_nth mailbox_u_mul_e fn_mean_nth del: map_map)
qed

lemma apply_message_copy_u:
  "valid_graph g \<Longrightarrow> nrows h = num_nodes g \<Longrightarrow>
   apply_message (copy_u ''h'' ''m'') (g\<lparr>ndata := (ndata g)(''h'' \<mapsto> h)\<rparr>) =
     Inr \<lparr>ncols = ncols h, rows = map (\<lambda>(u, v). rows h ! u) (edges g)\<rparr>"
  by (simp add: node_rows_ok_def)

lemma unweighted_mean:
  assumes "valid_graph g" "nrows h = num_nodes g"
  shows "\<exists>hN g'. SAGEConv_h_N g h = (Inr hN, g') \<and> nrows hN = num_nodes g \<and>
           ncols hN = ncols h \<and> wf_tensor hN \<and>
           (\<forall>v<num_nodes g. \<forall>j<ncols h.
              rows hN ! v ! j =
                (if in_srcs g v = [] then 0
                 else (\<Sum>u\<leftarrow>in_srcs g v. rows h ! u ! j) / real (length (in_srcs g v))))"
  using assms by (simp add: SAGEConv_h_N_run agg_copy_u_entry)

lemma weighted_mean:
  assumes "valid_graph g" "nrows h = num_nodes g" "wf_tensor h"
    "nrows w = num_edges g" "wf_tensor w" "ncols w = 1 \<or> ncols w = ncols h"
  shows "\<exists>hN g'. WeightedSAGEConv_h_N g h w = (Inr hN, g') \<and> nrows hN = num_nodes g \<and>
           ncols hN = ncols h \<and> wf_tensor hN \<and>
           (\<forall>v<num_nodes g. \<forall>j<ncols h.
              rows hN ! v ! j =
                (if in_edges g v = [] then 0
                 else (\<Sum>(u, e)\<leftarrow>in_edges g v.
                         rows h ! u ! j * rows w ! e ! (if ncols w = 1 then 0 else j))
                      / real (length (in_edges g v))))"
proof -
  from assms(6) have b: "broadcast_dim (ncols h) (ncols w) = Some (ncols h)"
    by (rule broadcast_dim_weight)
  show ?thesis
    using assms(1,2,4) agg_u_mul_e_entry[OF assms]
    by (simp add: WeightedSAGEConv_h_N_run b)
qed

lemma upt3: "[0..<3] = [0, 1, 2]"
  by (simp add: upt_rec)

lemma upt2: "[0..<2] = [0, 1]"
  by (simp add: upt_rec)

lemma g3_valid: "valid_graph g3"
  by (simp add: valid_graph_def g3_def)

lemma X3_shape: "nrows X3 = num_nodes g3 \<and> wf_tensor X3 \<and> ncols X3 = 2"
  by (simp add: nrows_def X3_def g3_def wf_tensor_def)

lemma ones_shape: "nrows (torch_ones n d) = n \<and> wf_tensor (torch_ones n d) \<and> ncols (torch_ones n d) = d"
  by (simp add: nrows_def torch_ones_def wf_tensor_def list_all_iff)

lemma g3_h_N:
  "fst (SAGEConv_h_N g3 X3) = Inr \<lparr>ncols = 2, rows = [[0, 0], [1/2, 1/2], [0, 0]]\<rparr>"
  using g3_valid
  by (simp add: SAGEConv_h_N_run g3_def X3_def nrows_def agg_def copy_u_rows_def
      mailbox_def fn_mean_def vsum_def upt3 upt2)

lemma g3_weighted_h_N:
  "fst (WeightedSAGEConv_h_N g3 X3 (torch_ones 2 1)) =
     Inr \<lparr>ncols = 2, rows = [[0, 0], [1/2, 1/2], [0, 0]]\<rparr>"
  using g3_valid
  by (simp add: WeightedSAGEConv_h_N_run g3_def X3_def nrows_def agg_def u_mul_e_rows_def
      mailbox_def fn_mean_def vsum_def upt3 upt2 torch_ones_def num_edges_def
      broadcast_dim_def bmul_def)

text \<open>
  C1.  On a graph with valid edges and a feature matrix with one row per node,
  the message of an edge \<open>u \<rightarrow> v\<close> is the feature row of \<open>u\<close>, and the
  neighbour feature \<open>h_N\<close> of a node is the mean of the rows of the sources
  of its incoming edges (zero when there are none).  With edge weights of
  width one or of the feature width, each message is first multiplied
  element-wise by the weight row of its edge.
\<close>

theorem aggregate_mean_of_messages:
  assumes "valid_graph g" "nrows h = num_nodes g" "wf_tensor h"
    "nrows w = num_edges g" "wf_tensor w" "ncols w = 1 \<or> ncols w = ncols h"
  shows "apply_message (copy_u ''h'' ''m'') (g\<lparr>ndata := (ndata g)(''h'' \<mapsto> h)\<rparr>) =
           Inr \<lparr>ncols = ncols h, rows = map (\<lambda>(u, v). rows h ! u) (edges g)\<rparr> \<and>
         (\<exists>hN g'. SAGEConv_h_N g h = (Inr hN, g') \<and> nrows hN = num_nodes g \<and>
           ncols hN = ncols h \<and> wf_tensor hN \<and>
           (\<forall>v<num_nodes g. \<forall>j<ncols h.
              rows hN ! v ! j =
                (if in_srcs g v = [] then 0
                 else (\<Sum>u\<leftarrow>in_srcs g v. rows h ! u ! j) / real (length (in_srcs g v))))) \<and>
         (\<exists>hN g'. WeightedSAGEConv_h_N g h w = (Inr hN, g') \<and> nrows hN = num_nodes g \<and>
           ncols hN = ncols h \<and> wf_tensor hN \<and>
           (\<forall>v<num_nodes g. \<forall>j<ncols h.
              rows hN ! v ! j =
                (if in_edges g v = [] then 0
                 else (\<Sum>(u, e)\<leftarrow>in_edges g v.
                         rows h ! u ! j * rows w ! e ! (if ncols w = 1 then 0 else j))
                      / real (length (in_edges g v)))))"
  using apply_message_copy_u[OF assms(1,2)] unweighted_mean[OF assms(1,2)] weighted_mean[OF assms]
  by (intro conjI)

text \<open>
  The example of the spec: three nodes, edges \<open>0 \<rightarrow> 1\<close> and \<open>2 \<rightarrow> 1\<close>,
  features \<open>[[1,0],[0,0],[0,1]]\<close>.  Node 1 aggregates to \<open>[1/2, 1/2]\<close>, nodes
  0 and 2 to \<open>[0, 0]\<close>, with and without unit edge weights.
\<close>

theorem aggregate_mean_of_messages_witness:
  "valid_graph g3 \<and> nrows X3 = num_nodes g3 \<and> wf_tensor X3 \<and>
   nrows (torch_ones 2 1) = num_edges g3 \<and> wf_tensor (torch_ones 2 1) \<and>
   fst (SAGEConv_h_N g3 X3) = Inr \<lparr>ncols = 2, rows = [[0, 0], [1/2, 1/2], [0, 0]]\<rparr> \<and>
   fst (WeightedSAGEConv_h_N g3 X3 (torch_ones 2 1)) =
     Inr \<lparr>ncols = 2, rows = [[0, 0], [1/2, 1/2], [0, 0]]\<rparr> \<and>
   (\<exists>hN g'. SAGEConv_h_N g3 X3 = (Inr hN, g') \<and> rows hN ! 1 ! 0 = 1/2 \<and> rows hN ! 1 ! 1 = 1/2
      \<and> rows hN ! 0 ! 0 = 0 \<and> rows hN ! 0 ! 1 = 0 \<and> rows hN ! 2 ! 0 = 0 \<and> rows hN ! 2 ! 1 = 0)"
proof -
  have hyps: "valid_graph g3" "nrows X3 = num_nodes g3" "wf_tensor X3"
    "nrows (torch_ones 2 1) = num_edges g3" "wf_tensor (torch_ones 2 1)"
    "ncols (torch_ones 2 1) = 1 \<or> ncols (torch_ones 2 1) = ncols X3"
    using g3_valid X3_shape ones_shape[of 2 1] by (simp_all add: num_edges_def g3_def)
  from aggregate_mean_of_messages[OF hyps]
  obtain hN g' where r: "SAGEConv_h_N g3 X3 = (Inr hN, g')"
    and e: "\<forall>v<num_nodes g3. \<forall>j<ncols X3.
              rows hN ! v ! j =
                (if in_srcs g3 v = [] then 0
                 else (\<Sum>u\<leftarrow>in_srcs g3 v. rows X3 ! u ! j) / real (length (in_srcs g3 v)))"
    by blast
  have n: "num_nodes g3 = 3" "ncols X3 = 2" by (simp_all add: g3_def X3_def)
  have s: "in_srcs g3 0 = []" "in_srcs g3 1 = [0, 2]" "in_srcs g3 (Suc 0) = [0, 2]"
    "in_srcs g3 2 = []"
    by (simp_all add: in_srcs_def g3_def)
  have "rows hN ! 1 ! 0 = 1/2 \<and> rows hN ! 1 ! 1 = 1/2
      \<and> rows hN ! 0 ! 0 = 0 \<and> rows hN ! 0 ! 1 = 0 \<and> rows hN ! 2 ! 0 = 0 \<and> rows hN ! 2 ! 1 = 0"
    using e[rule_format, of 1 0] e[rule_format, of 1 1] e[rule_format, of 0 0]
      e[rule_format, of 0 1] e[rule_format, of 2 0] e[rule_format, of 2 1]
    by (simp add: n s X3_def)
  with r hyps g3_h_N g3_weighted_h_N show ?thesis by blast
qed

lemma in_srcs_Nil_iff: "in_srcs g v = [] \<longleftrightarrow> v \<notin> snd ` set (edges g)"
  by (auto simp: in_srcs_def filter_empty_conv image_iff)

lemma agg_row_no_in_edge:
  assumes "v < num_nodes g" "v \<notin> snd ` set (edges g)"
  shows "rows (agg g (ncols h) (copy_u_rows g h)) ! v = replicate (ncols h) 0"
  using assms by (simp add: rows_agg_nth mailbox_copy_u in_srcs_Nil_iff[symmetric] fn_mean_Nil)

lemma agg_no_edges:
  "edges g = [] \<Longrightarrow> agg g d ms = torch_zeros (num_nodes g) d"
  by (simp add: agg_def torch_zeros_def mailbox_def fn_mean_Nil map_replicate_const)

lemma affine_nth:
  "k < length (weight l) \<Longrightarrow> k < length (bias l) \<Longrightarrow>
   affine l x ! k = dot (weight l ! k) x + bias l ! k"
  by (simp add: affine_def)

lemma length_affine: "wf_Linear l \<Longrightarrow> length (affine l x) = out_features l"
  by (simp add: affine_def wf_Linear_def)

lemma SAGEConv_init_fields [simp]:
  "in_features (SAGEConv_init i out W b) = i * 2"
  "out_features (SAGEConv_init i out W b) = out"
  "weight (SAGEConv_init i out W b) = W"
  "bias (SAGEConv_init i out W b) = b"
  by (simp_all add: SAGEConv_init_def nn_Linear_def)

lemma combine_ok:
  assumes "nrows h = nrows h_N" "ncols h + ncols h_N = in_features self"
  shows "combine self h h_N =
           Inr \<lparr>ncols = out_features self, rows = map (affine self) (map2 (@) (rows h) (rows h_N))\<rparr>"
  using assms by (simp add: combine_def)

lemma combined_row:
  assumes "nrows h = nrows h_N" "v < nrows h"
  shows "map (affine self) (map2 (@) (rows h) (rows h_N)) ! v =
           affine self (rows h ! v @ rows h_N ! v)"
  using assms by (simp add: nrows_def)

lemma SAGEConv_forward_ok:
  assumes "valid_graph g" "nrows h = num_nodes g" "ncols h = in_feat"
    and self: "self = SAGEConv_init in_feat out_feat W b"
  shows "SAGEConv_forward self g h =
           (Inr \<lparr>ncols = out_feat,
                 rows = map (affine self)
                          (map2 (@) (rows h) (rows (agg g in_feat (copy_u_rows g h))))\<rparr>, g)"
  using assms by (simp add: SAGEConv_forward_run combine_ok)

text \<open>
  C4.  For a graph with valid edges, a feature matrix of shape \<open>(N, in_feat)\<close>
  and a layer \<^verbatim>\<open>SAGEConv(in_feat, out_feat)\<close> with weight \<open>W\<close> and bias \<open>b\<close>,
  the forward pass returns a matrix of shape \<open>(N, out_feat)\<close>, whatever the
  number of edges.  Its row at node \<open>v\<close> is \<open>W x + b\<close> for \<open>x\<close> the
  concatenation, of length \<open>2 * in_feat\<close>, of the node's own row and its row of
  \<open>h_N\<close>.
\<close>

theorem forward_is_affine_of_concat:
  assumes "valid_graph g" "nrows h = num_nodes g" "wf_tensor h" "ncols h = in_feat"
    and "wf_Linear (SAGEConv_init in_feat out_feat W b)"
  shows "\<exists>hN g' out.
           SAGEConv_h_N g h = (Inr hN, g') \<and>
           SAGEConv_forward (SAGEConv_init in_feat out_feat W b) g h = (Inr out, g) \<and>
           nrows out = num_nodes g \<and> ncols out = out_feat \<and> wf_tensor out \<and>
           (\<forall>v<num_nodes g.
              length (rows h ! v @ rows hN ! v) = 2 * in_feat \<and>
              rows out ! v = affine (SAGEConv_init in_feat out_feat W b) (rows h ! v @ rows hN ! v) \<and>
              (\<forall>k<out_feat. rows out ! v ! k = dot (W ! k) (rows h ! v @ rows hN ! v) + b ! k))"
proof -
  let ?self = "SAGEConv_init in_feat out_feat W b"
  let ?hN = "agg g in_feat (copy_u_rows g h)"
  let ?out = "\<lparr>ncols = out_feat, rows = map (affine ?self) (map2 (@) (rows h) (rows ?hN))\<rparr>"
  have wl: "length W = out_feat" "length b = out_feat"
    using assms(5) by (simp_all add: wf_Linear_def)
  have 1: "SAGEConv_h_N g h =
     (Inr ?hN, g\<lparr>ndata := (ndata g)(''h'' \<mapsto> h, ''h_N'' \<mapsto> ?hN)\<rparr>)"
    using assms(1,2,4) by (simp add: SAGEConv_h_N_run)
  have 2: "SAGEConv_forward ?self g h = (Inr ?out, g)"
    using assms(1,2,4) by (rule SAGEConv_forward_ok) simp
  have n: "nrows h = nrows ?hN" using assms(2) by simp
  have 3: "nrows ?out = num_nodes g"
    using assms(2) by (simp add: nrows_def agg_def)
  have 4: "wf_tensor ?out"
    using assms(5) by (simp add: wf_tensor_def list_all_iff length_affine)
  have 5: "length (rows h ! v @ rows ?hN ! v) = 2 * in_feat \<and>
           rows ?out ! v = affine ?self (rows h ! v @ rows ?hN ! v) \<and>
           (\<forall>k<out_feat. rows ?out ! v ! k = dot (W ! k) (rows h ! v @ rows ?hN ! v) + b ! k)"
    if v: "v < num_nodes g" for v
  proof -
    from v assms(2,3,4) have "length (rows h ! v) = in_feat" by (simp add: wf_tensor_nth)
    moreover from v have "length (rows ?hN ! v) = in_feat" by (simp add: rows_agg_nth)
    moreover have r: "rows ?out ! v = affine ?self (rows h ! v @ rows ?hN ! v)"
      using combined_row[OF n, of v ?self] v assms(2) by simp
    moreover have "\<forall>k<out_feat. affine ?self x ! k = dot (W ! k) x + b ! k" for x
      using wl by (simp add: affine_nth)
    ultimately show ?thesis by simp
  qed
  from 5 have 6: "\<forall>v<num_nodes g.
           length (rows h ! v @ rows ?hN ! v) = 2 * in_feat \<and>
           rows ?out ! v = affine ?self (rows h ! v @ rows ?hN ! v) \<and>
           (\<forall>k<out_feat. rows ?out ! v ! k = dot (W ! k) (rows h ! v @ rows ?hN ! v) + b ! k)"
    by blast
  show ?thesis
  proof (intro exI conjI)
    show "SAGEConv_h_N g h =
      (Inr ?hN, g\<lparr>ndata := (ndata g)(''h'' \<mapsto> h, ''h_N'' \<mapsto> ?hN)\<rparr>)" by (rule 1)
    show "SAGEConv_forward ?self g h = (Inr ?out, g)" by (rule 2)
    show "nrows ?out = num_nodes g" by (rule 3)
    show "ncols ?out = out_feat" by simp
    show "wf_tensor ?out" by (rule 4)
    show "\<forall>v<num_nodes g.
           length (rows h ! v @ rows ?hN ! v) = 2 * in_feat \<and>
           rows ?out ! v = affine ?self (rows h ! v @ rows ?hN ! v) \<and>
           (\<forall>k<out_feat. rows ?out ! v ! k = dot (W ! k) (rows h ! v @ rows ?hN ! v) + b ! k)"
      by (rule 6)
  qed
qed

lemma conv3_wf: "wf_Linear (SAGEConv_init 2 2 [[1, 0, 2, 0], [0, 1, 0, 2]] [0, 1])"
  by (simp add: wf_Linear_def)

lemma g3_forward:
  "SAGEConv_forward conv3 g3 X3 = (Inr \<lparr>ncols = 2, rows = [[1, 1], [1, 2], [0, 2]]\<rparr>, g3)"
  using g3_valid
  by (simp add: SAGEConv_forward_run combine_def conv3_def g3_def X3_def nrows_def agg_def
      copy_u_rows_def mailbox_def fn_mean_def vsum_def upt3 upt2 affine_def dot_def)

theorem forward_is_affine_of_concat_witness:
  "valid_graph g3 \<and> nrows X3 = num_nodes g3 \<and> wf_tensor X3 \<and> ncols X3 = 2 \<and>
   wf_Linear (SAGEConv_init 2 2 [[1, 0, 2, 0], [0, 1, 0, 2]] [0, 1]) \<and>
   (\<exists>out. SAGEConv_forward (SAGEConv_init 2 2 [[1, 0, 2, 0], [0, 1, 0, 2]] [0, 1]) g3 X3
             = (Inr out, g3) \<and>
          nrows out = 3 \<and> ncols out = 2 \<and> rows out = [[1, 1], [1, 2], [0, 2]])"
proof -
  have hyps: "valid_graph g3" "nrows X3 = num_nodes g3" "wf_tensor X3" "ncols X3 = 2"
    using g3_valid X3_shape by simp_all
  from forward_is_affine_of_concat[OF hyps conv3_wf]
  obtain out where o: "SAGEConv_forward (SAGEConv_init 2 2 [[1, 0, 2, 0], [0, 1, 0, 2]] [0, 1]) g3 X3
             = (Inr out, g3)" "nrows out = num_nodes g3" "ncols out = 2"
    by blast
  with g3_forward have "rows out = [[1, 1], [1, 2], [0, 2]]"
    by (auto simp: conv3_def)
  with o hyps conv3_wf show ?thesis by (simp add: g3_def)
qed

text \<open>
  C3.  At a node without incoming edges the neighbour feature \<open>h_N\<close> is the
  zero vector, and the row of the output at that node is the transform of the
  node's own row followed by zeros.  For a graph without edges \<open>h_N\<close> is the
  zero matrix.
\<close>

theorem no_in_edges_zero_vector:
  assumes "valid_graph g" "nrows h = num_nodes g" "wf_tensor h" "ncols h = in_feat"
    and "wf_Linear (SAGEConv_init in_feat out_feat W b)"
    and "v < num_nodes g" "v \<notin> snd ` set (edges g)"
  shows "\<exists>hN g' out.
           SAGEConv_h_N g h = (Inr hN, g') \<and>
           rows hN ! v = replicate in_feat 0 \<and>
           (edges g = [] \<longrightarrow> hN = torch_zeros (num_nodes g) in_feat) \<and>
           SAGEConv_forward (SAGEConv_init in_feat out_feat W b) g h = (Inr out, g) \<and>
           rows out ! v =
             affine (SAGEConv_init in_feat out_feat W b) (rows h ! v @ replicate in_feat 0)"
proof -
  let ?self = "SAGEConv_init in_feat out_feat W b"
  let ?hN = "agg g in_feat (copy_u_rows g h)"
  let ?out = "\<lparr>ncols = out_feat, rows = map (affine ?self) (map2 (@) (rows h) (rows ?hN))\<rparr>"
  have z: "rows ?hN ! v = replicate in_feat 0"
    using agg_row_no_in_edge[OF assms(6,7), of h] assms(4) by simp
  have n: "nrows h = nrows ?hN" using assms(2) by simp
  show ?thesis
  proof (intro exI conjI)
    show "SAGEConv_h_N g h =
      (Inr ?hN, g\<lparr>ndata := (ndata g)(''h'' \<mapsto> h, ''h_N'' \<mapsto> ?hN)\<rparr>)"
      using assms(1,2,4) by (simp add: SAGEConv_h_N_run)
    show "rows ?hN ! v = replicate in_feat 0" by (rule z)
    show "edges g = [] \<longrightarrow> ?hN = torch_zeros (num_nodes g) in_feat"
      by (simp add: agg_no_edges)
    show "SAGEConv_forward ?self g h = (Inr ?out, g)"
      using assms(1,2,4) by (rule SAGEConv_forward_ok) simp
    show "rows ?out ! v = affine ?self (rows h ! v @ replicate in_feat 0)"
      using combined_row[OF n, of v ?self] assms(2,6) z by simp
  qed
qed

theorem no_in_edges_zero_vector_witness:
  "valid_graph g3 \<and> nrows X3 = num_nodes g3 \<and> wf_tensor X3 \<and> ncols X3 = 2 \<and>
   wf_Linear (SAGEConv_init 2 2 [[1, 0, 2, 0], [0, 1, 0, 2]] [0, 1]) \<and>
   (0::nat) < num_nodes g3 \<and> 0 \<notin> snd ` set (edges g3) \<and>
   (\<exists>hN g' out.
      SAGEConv_h_N g3 X3 = (Inr hN, g') \<and> rows hN ! 0 = [0, 0] \<and>
      SAGEConv_forward (SAGEConv_init 2 2 [[1, 0, 2, 0], [0, 1, 0, 2]] [0, 1]) g3 X3
        = (Inr out, g3) \<and>
      rows out ! 0 = [1, 1]) \<and>
   valid_graph g0 \<and> nrows X3 = num_nodes g0 \<and> edges g0 = [] \<and>
   (\<exists>g'. SAGEConv_h_N g0 X3 = (Inr \<lparr>ncols = 2, rows = [[0, 0], [0, 0], [0, 0]]\<rparr>, g'))"
proof -
  have hyps: "valid_graph g3" "nrows X3 = num_nodes g3" "wf_tensor X3" "ncols X3 = 2"
    using g3_valid X3_shape by simp_all
  have v: "(0::nat) < num_nodes g3" "0 \<notin> snd ` set (edges g3)"
    by (simp_all add: g3_def)
  have a: "affine (SAGEConv_init 2 2 [[1, 0, 2, 0], [0, 1, 0, 2]] [0, 1])
             (rows X3 ! 0 @ replicate 2 0) = [1, 1]"
    by (simp add: affine_def dot_def X3_def numeral_2_eq_2)
  have r: "replicate 2 (0::real) = [0, 0]" by (simp add: numeral_2_eq_2)
  from no_in_edges_zero_vector[OF hyps conv3_wf v] a r
  have 1: "\<exists>hN g' out.
      SAGEConv_h_N g3 X3 = (Inr hN, g') \<and> rows hN ! 0 = [0, 0] \<and>
      SAGEConv_forward (SAGEConv_init 2 2 [[1, 0, 2, 0], [0, 1, 0, 2]] [0, 1]) g3 X3
        = (Inr out, g3) \<and>
      rows out ! 0 = [1, 1]"
    by auto
  have hyps0: "valid_graph g0" "nrows X3 = num_nodes g0" "edges g0 = []"
    "(0::nat) < num_nodes g0" "0 \<notin> snd ` set (edges g0)"
    by (simp_all add: g0_def valid_graph_def X3_def nrows_def)
  have z: "torch_zeros (num_nodes g0) 2 = \<lparr>ncols = 2, rows = [[0, 0], [0, 0], [0, 0]]\<rparr>"
    by (simp add: torch_zeros_def g0_def numeral_2_eq_2 numeral_3_eq_3)
  from no_in_edges_zero_vector[OF hyps0(1,2) hyps(3,4) conv3_wf hyps0(4,5)] hyps0(3) z
  have 2: "\<exists>g'. SAGEConv_h_N g0 X3 = (Inr \<lparr>ncols = 2, rows = [[0, 0], [0, 0], [0, 0]]\<rparr>, g')"
    by auto
  from 1 2 hyps conv3_wf v hyps0 show ?thesis by simp
qed

lemma bmul_one: "bmul a [1] = a"
  by (cases a) (auto simp: bmul_def map_idI)

lemma bmul_ones: "bmul a (replicate (length a) 1) = a"
  by (induction a) (simp_all add: bmul_def)

lemma vsum_single: "length x = d \<Longrightarrow> vsum d [x] = x"
  by (auto simp: vsum_def intro: nth_equalityI)

lemma fn_mean_single: "length x = d \<Longrightarrow> fn_mean d [x] = x"
  by (simp add: fn_mean_def vsum_single map_idI)

text \<open>
  C7.  On a graph whose only edge is the self-loop \<open>u \<rightarrow> u\<close>, with edge weight
  one (a weight row of width one, or of the feature width, filled with ones),
  the weighted layer's neighbour feature \<open>h_N\<close> at \<open>u\<close> is the feature row of
  \<open>u\<close> itself.
\<close>

theorem self_loop_unit_weight_identity:
  assumes "u < num_nodes g" "edges g = [(u, u)]" "nrows h = num_nodes g" "wf_tensor h"
    and "d = 1 \<or> d = ncols h"
  shows "\<exists>hN g'. WeightedSAGEConv_h_N g h (torch_ones 1 d) = (Inr hN, g') \<and>
           rows hN ! u = rows h ! u"
proof -
  let ?w = "torch_ones 1 d"
  have w: "nrows ?w = num_edges g" "ncols ?w = d" "rows ?w ! 0 = replicate d 1"
    using assms(2) by (simp_all add: torch_ones_def nrows_def num_edges_def)
  have b: "broadcast_dim (ncols h) (ncols ?w) = Some (ncols h)"
    using assms(5) w(2) by (simp add: broadcast_dim_weight)
  have len: "length (rows h ! u) = ncols h"
    using assms(1,3,4) by (simp add: wf_tensor_nth)
  have m: "bmul (rows h ! u) (replicate d 1) = rows h ! u"
    using assms(5) len bmul_one[of "rows h ! u"] bmul_ones[of "rows h ! u"] by auto
  have "rows (agg g (ncols h) (u_mul_e_rows g h ?w)) ! u = rows h ! u"
    using assms(1,2) w(3) m len
    by (simp add: rows_agg_nth u_mul_e_rows_def mailbox_def fn_mean_single)
  moreover have "valid_graph g"
    using assms(1,2) by (simp add: valid_graph_def)
  ultimately show ?thesis
    using assms(3) w(1) b by (simp add: WeightedSAGEConv_h_N_run)
qed

theorem self_loop_unit_weight_identity_witness:
  "(1::nat) < num_nodes g1 \<and> edges g1 = [(1, 1)] \<and> nrows X1 = num_nodes g1 \<and> wf_tensor X1 \<and>
   (\<exists>hN g'. WeightedSAGEConv_h_N g1 X1 (torch_ones 1 1) = (Inr hN, g') \<and> rows hN ! 1 = [7, 8])"
proof -
  have hyps: "(1::nat) < num_nodes g1" "edges g1 = [(1, 1)]" "nrows X1 = num_nodes g1"
    "wf_tensor X1" "(1::nat) = 1 \<or> 1 = ncols X1"
    by (simp_all add: g1_def X1_def nrows_def wf_tensor_def)
  have "rows X1 ! 1 = [7, 8]" by (simp add: X1_def)
  with self_loop_unit_weight_identity[OF hyps] hyps show ?thesis by auto
qed

text \<open>
  C10.  With the edge weight \<^verbatim>\<open>torch.ones(g.num_edges(), 1)\<close> the weighted
  layer returns what the unweighted layer with the same linear submodule
  returns, feature matrix or error, and so do the two-layer networks built
  from them.
\<close>

theorem weighted_with_ones_is_unweighted:
  "WeightedSAGEConv_forward self g h (torch_ones (num_edges g) 1) = SAGEConv_forward self g h \<and>
   Model_forward_weighted net g h = Model_forward net g h"
proof -
  have rows1: "map (\<lambda>((u, v), e). bmul (rows x ! u) (rows (torch_ones (length es) 1) ! e))
                 (zip es [0..<length es]) = map (\<lambda>(u, v). rows x ! u) es" for x es
  proof (rule nth_equalityI)
    show "length (map (\<lambda>((u, v), e). bmul (rows x ! u) (rows (torch_ones (length es) 1) ! e))
                 (zip es [0..<length es])) = length (map (\<lambda>(u, v). rows x ! u) es)" by simp
  next
    fix i assume "i < length (map (\<lambda>((u, v), e). bmul (rows x ! u)
        (rows (torch_ones (length es) 1) ! e)) (zip es [0..<length es]))"
    then have i: "i < length es" by simp
    then show "map (\<lambda>((u, v), e). bmul (rows x ! u) (rows (torch_ones (length es) 1) ! e))
                 (zip es [0..<length es]) ! i = map (\<lambda>(u, v). rows x ! u) es ! i"
      by (simp add: torch_ones_def bmul_one case_prod_unfold)
  qed
  have u: "u_mul_e_rows g x (torch_ones (num_edges g) 1) = copy_u_rows g x" for g x
    using rows1[of x "edges g"] by (simp add: u_mul_e_rows_def copy_u_rows_def num_edges_def)
  have bd: "broadcast_dim (ncols x) (ncols (torch_ones n 1)) = Some (ncols x)" for x n
    by (simp add: broadcast_dim_def torch_ones_def)
  have n: "nrows (torch_ones n 1) = n" for n
    by (simp add: torch_ones_def nrows_def)
  have layer: "WeightedSAGEConv_forward c g x (torch_ones (num_edges g) 1) = SAGEConv_forward c g x"
    for c g x
    by (simp add: WeightedSAGEConv_forward_run SAGEConv_forward_run bd n u del: One_nat_def)
  have "Model_forward_weighted net g h = Model_forward net g h"
    unfolding Model_forward_weighted_def Model_forward_def by (simp add: layer del: One_nat_def)
  with layer show ?thesis by simp
qed

lemma DotPredictor_h:
  "nrows h = num_nodes g \<Longrightarrow> valid_graph g \<Longrightarrow>
   seq (set_ndata ''h'' h) (\<lambda>_.
        seq (apply_edges (u_dot_v ''h'' ''h'' ''score'')) (\<lambda>_.
        seq (get_edata ''score'') (\<lambda>score.
        pure (column0 score)))) g =
   (Inr (map (\<lambda>(u, v). dot (rows h ! u) (rows h ! v)) (edges g)),
    g\<lparr>ndata := (ndata g)(''h'' \<mapsto> h),
      edata := (edata g)(''score'' \<mapsto>
        \<lparr>ncols = 1, rows = map (\<lambda>(u, v). [dot (rows h ! u) (rows h ! v)]) (edges g)\<rparr>)\<rparr>)"
  by (simp add: seq_def set_ndata_def apply_edges_def node_rows_ok_def
        get_edata_def pure_def column0_def comp_def case_prod_unfold)

lemma DotPredictor_forward_run:
  "DotPredictor_forward g h =
     (if nrows h \<noteq> num_nodes g \<or> \<not> valid_graph g then Inl DGLError
      else Inr (map (\<lambda>(u, v). dot (rows h ! u) (rows h ! v)) (edges g)), g)"
proof (cases "nrows h = num_nodes g")
  case True
  show ?thesis
  proof (cases "valid_graph g")
    case v: True
    show ?thesis
      unfolding DotPredictor_forward_def local_scope_def
      by (simp only: DotPredictor_h[OF True v]) (simp add: True v)
  next
    case False
    have "seq (set_ndata ''h'' h) (\<lambda>_.
        seq (apply_edges (u_dot_v ''h'' ''h'' ''score'')) (\<lambda>_.
        seq (get_edata ''score'') (\<lambda>score.
        pure (column0 score)))) g = (Inl DGLError, g\<lparr>ndata := (ndata g)(''h'' \<mapsto> h)\<rparr>)"
      using True False
      by (simp add: seq_def set_ndata_def apply_edges_def node_rows_ok_def)
    with True False show ?thesis
      unfolding DotPredictor_forward_def local_scope_def by simp
  qed
next
  case False
  then have "set_ndata ''h'' h g = (Inl DGLError, g)" by (simp add: set_ndata_def)
  then have "seq (set_ndata ''h'' h) f g = (Inl DGLError, g)" for f :: "unit \<Rightarrow> real list comp"
    by (rule seq_Inl)
  with False show ?thesis
    unfolding DotPredictor_forward_def local_scope_def by simp
qed

text \<open>
  C8.  On a graph whose edges are the candidate pairs, the dot product
  predictor returns, for every edge \<open>(u, v)\<close> in edge order, the dot product
  of the feature rows of \<open>u\<close> and \<open>v\<close>, and hands the graph back unchanged.
\<close>

theorem dot_predictor_scores:
  assumes "valid_graph g" "nrows h = num_nodes g" "wf_tensor h"
  shows "DotPredictor_forward g h =
           (Inr (map (\<lambda>(u, v). dot (rows h ! u) (rows h ! v)) (edges g)), g)"
  using assms(1,2) by (simp add: DotPredictor_forward_run)

theorem dot_predictor_scores_witness:
  "valid_graph g2 \<and> nrows X2 = num_nodes g2 \<and> wf_tensor X2 \<and>
   DotPredictor_forward g2 X2 = (Inr [11], g2)"
proof -
  have hyps: "valid_graph g2" "nrows X2 = num_nodes g2" "wf_tensor X2"
    by (simp_all add: valid_graph_def g2_def X2_def nrows_def wf_tensor_def)
  have "map (\<lambda>(u, v). dot (rows X2 ! u) (rows X2 ! v)) (edges g2) = [11]"
    by (simp add: g2_def X2_def dot_def)
  with dot_predictor_scores[OF hyps] hyps show ?thesis by simp
qed

lemma dgl_graph_valid:
  assumes "dgl_graph us vs n = Inr g"
  shows "valid_graph g"
proof -
  from assms have g: "num_nodes g = n" "edges g = zip us vs"
    and b: "\<forall>i\<in>set us. i < n" "\<forall>i\<in>set vs. i < n"
    by (auto simp: dgl_graph_def list_all_iff split: if_splits)
  have "u < n \<and> v < n" if "(u, v) \<in> set (zip us vs)" for u v
    using that b by (meson set_zip_leftD set_zip_rightD)
  with g show ?thesis by (auto simp: valid_graph_def list_all_iff)
qed






lemma fold_max_ge: "a \<le> fold max xs (a::nat) \<and> (\<forall>x\<in>set xs. x \<le> fold max xs a)"
proof (induction xs arbitrary: a)
  case Nil
  then show ?case by simp
next
  case (Cons y ys)
  from Cons.IH[of "max y a"] show ?case by auto
qed

lemma list_max_ge: "x \<in> set xs \<Longrightarrow> x \<le> list_max xs"
  using fold_max_ge[of 0 xs] by (simp add: list_max_def)

lemma candidates_mem:
  "(i, j) \<in> set (concat (map (\<lambda>i. map (\<lambda>j. (i, j)) (filter (P i) [0..<n])) [0..<n])) \<longleftrightarrow>
     i < n \<and> j < n \<and> P i j"
  by force

lemma negative_pairs_mem:
  assumes "negative_pairs g = Inr neg"
  shows "(i, j) \<in> set neg \<longleftrightarrow>
           i < num_nodes g \<and> j < num_nodes g \<and>
           adj_neg (edges g) (Suc (list_max (map fst (edges g))))
             (Suc (list_max (map snd (edges g)))) i j \<noteq> 0"
proof -
  from assms have "neg = concat (map (\<lambda>i. map (\<lambda>j. (i, j))
      (filter (\<lambda>j. adj_neg (edges g) (Suc (list_max (map fst (edges g))))
             (Suc (list_max (map snd (edges g)))) i j \<noteq> 0) [0..<num_nodes g])) [0..<num_nodes g])"
    by (simp add: negative_pairs_def Let_def split: if_splits)
  then show ?thesis by (simp only: candidates_mem)
qed

lemma adj_neg_edge:
  assumes "(i, j) \<in> set es"
  shows "adj_neg es (Suc (list_max (map fst es))) (Suc (list_max (map snd es))) i j =
           1 - int (count_list es (i, j)) - (if i = j then 1 else 0)"
proof -
  from assms have "i \<in> set (map fst es)" "j \<in> set (map snd es)" by force+
  then have "i \<le> list_max (map fst es)" "j \<le> list_max (map snd es)"
    by (simp_all only: list_max_ge)
  then show ?thesis by (auto simp: adj_neg_def)
qed

lemma self_loop_is_candidate:
  assumes "valid_graph g" "negative_pairs g = Inr neg" "(u, u) \<in> set (edges g)"
  shows "(u, u) \<in> set neg"
proof -
  from assms(1,3) have u: "u < num_nodes g"
    by (auto simp: valid_graph_def list_all_iff)
  from assms(3) have "count_list (edges g) (u, u) \<noteq> 0"
    by (simp add: count_list_0_iff)
  then have "adj_neg (edges g) (Suc (list_max (map fst (edges g))))
               (Suc (list_max (map snd (edges g)))) u u \<noteq> 0"
    by (simp add: adj_neg_edge[OF assms(3)])
  with u show ?thesis by (simp add: negative_pairs_mem[OF assms(2)])
qed

lemma distinct_count_list_one: "distinct xs \<Longrightarrow> x \<in> set xs \<Longrightarrow> count_list xs x = 1"
  by (induction xs) auto

lemma simple_graph_candidates_are_non_edges:
  assumes "distinct (edges g)" "list_all (\<lambda>(u, v). u \<noteq> v) (edges g)"
    and "negative_pairs g = Inr neg"
  shows "set neg \<inter> set (edges g) = {}"
proof -
  have False if n: "(i, j) \<in> set neg" and e: "(i, j) \<in> set (edges g)" for i j
  proof -
    from e assms(2) have "i \<noteq> j" by (auto simp: list_all_iff)
    moreover from e assms(1) have "count_list (edges g) (i, j) = 1"
      by (simp add: distinct_count_list_one)
    ultimately have "adj_neg (edges g) (Suc (list_max (map fst (edges g))))
               (Suc (list_max (map snd (edges g)))) i j = 0"
      by (simp add: adj_neg_edge[OF e])
    with n show False by (simp add: negative_pairs_mem[OF assms(3)])
  qed
  then show ?thesis by auto
qed

lemma candidate_edge_iff:
  assumes "negative_pairs g = Inr neg" "(i, j) \<in> set (edges g)"
    and "i < num_nodes g" "j < num_nodes g"
  shows "(i, j) \<in> set neg \<longleftrightarrow> i = j \<or> 2 \<le> count_list (edges g) (i, j)"
proof -
  from assms(2) have "count_list (edges g) (i, j) \<noteq> 0"
    by (simp add: count_list_0_iff)
  then have "adj_neg (edges g) (Suc (list_max (map fst (edges g))))
               (Suc (list_max (map snd (edges g)))) i j \<noteq> 0
             \<longleftrightarrow> i = j \<or> 2 \<le> count_list (edges g) (i, j)"
    by (auto simp: adj_neg_edge[OF assms(2)])
  with assms(3,4) show ?thesis by (simp add: negative_pairs_mem[OF assms(1)])
qed

lemma candidate_in_range:
  assumes "negative_pairs g = Inr neg" "(i, j) \<in> set neg"
  shows "i < num_nodes g \<and> j < num_nodes g"
  using assms by (simp add: negative_pairs_mem)

lemma sample_negative_run:
  assumes "negative_pairs g = Inr neg" "possible_choice (length neg) (num_edges g) neg_eids"
  shows "sample_negative g neg_eids = Inr (map (\<lambda>i. neg ! i) neg_eids)"
proof -
  from assms(1) have "edges g \<noteq> []"
    by (auto simp: negative_pairs_def Let_def split: if_splits)
  then have "0 < length neg_eids"
    using assms(2) by (simp add: possible_choice_def num_edges_def)
  then obtain i where "i \<in> set neg_eids" by (cases neg_eids) auto
  with assms(2) have "i < length neg" by (auto simp: possible_choice_def list_all_iff)
  then have "neg \<noteq> []" by auto
  with assms(1) show ?thesis by (simp add: sample_negative_def)
qed

lemma g_loop_negative_pairs: "negative_pairs g_loop = Inr [(1, 1)]"
  by (simp add: negative_pairs_def g_loop_def list_max_def adj_neg_def upt2)

lemma g_path_negative_pairs: "negative_pairs g_path = Inr [(0, 2), (2, 0)]"
  by (simp add: negative_pairs_def g_path_def list_max_def adj_neg_def upt3)

text \<open>
  C9, as the code has it.  The indices of the negative pairs are drawn with
  replacement: any list of \<open>num_edges\<close> indices into the candidate list is a
  possible outcome, the same index repeated included.  Every sampled pair is a
  candidate, and a sampled pair is an edge of the graph only if that edge is a
  self-loop or is present two or more times; the candidate list holds exactly
  those edges of the graph.  On a graph without self-loops and without
  repeated edges every sampled pair is a non-edge.
\<close>

theorem sampled_edges_are_loops_or_repeated:
  assumes "negative_pairs g = Inr neg" "possible_choice (length neg) (num_edges g) neg_eids"
  shows "\<exists>s. sample_negative g neg_eids = Inr s \<and> length s = num_edges g \<and>
           set s \<subseteq> set neg \<and>
           (\<forall>p\<in>set s. p \<in> set (edges g) \<longrightarrow>
              fst p = snd p \<or> 2 \<le> count_list (edges g) p) \<and>
           (distinct (edges g) \<and> list_all (\<lambda>(u, v). u \<noteq> v) (edges g) \<longrightarrow>
              set s \<inter> set (edges g) = {}) \<and>
           (valid_graph g \<longrightarrow>
              (\<forall>p\<in>set (edges g).
                 p \<in> set neg \<longleftrightarrow> fst p = snd p \<or> 2 \<le> count_list (edges g) p)) \<and>
           (\<forall>k<length neg.
              possible_choice (length neg) (num_edges g) (replicate (num_edges g) k))"
proof -
  let ?s = "map (\<lambda>i. neg ! i) neg_eids"
  have run: "sample_negative g neg_eids = Inr ?s"
    using assms by (rule sample_negative_run)
  have len: "length ?s = num_edges g"
    using assms(2) by (simp add: possible_choice_def)
  have sub: "set ?s \<subseteq> set neg"
    using assms(2) by (auto simp: possible_choice_def list_all_iff)
  have only: "fst p = snd p \<or> 2 \<le> count_list (edges g) p"
    if "p \<in> set ?s" "p \<in> set (edges g)" for p
  proof -
    obtain i j where p: "p = (i, j)" by (cases p)
    from that(1) sub p have n: "(i, j) \<in> set neg" by auto
    from candidate_in_range[OF assms(1) n] candidate_edge_iff[OF assms(1)] that(2) n p
    show ?thesis by auto
  qed
  have simple: "set ?s \<inter> set (edges g) = {}"
    if "distinct (edges g) \<and> list_all (\<lambda>(u, v). u \<noteq> v) (edges g)"
    using simple_graph_candidates_are_non_edges[OF _ _ assms(1)] that sub by blast
  have exact: "p \<in> set neg \<longleftrightarrow> fst p = snd p \<or> 2 \<le> count_list (edges g) p"
    if "valid_graph g" "p \<in> set (edges g)" for p
  proof -
    obtain i j where p: "p = (i, j)" by (cases p)
    from that p have "i < num_nodes g" "j < num_nodes g"
      by (auto simp: valid_graph_def list_all_iff)
    with candidate_edge_iff[OF assms(1), of i j] that(2) p show ?thesis by simp
  qed
  have rep: "possible_choice (length neg) (num_edges g) (replicate (num_edges g) k)"
    if "k < length neg" for k
    using that by (simp add: possible_choice_def list_all_iff)
  show ?thesis
  proof (intro exI conjI)
    show "sample_negative g neg_eids = Inr ?s" by (rule run)
    show "length ?s = num_edges g" by (rule len)
    show "set ?s \<subseteq> set neg" by (rule sub)
    show "\<forall>p\<in>set ?s. p \<in> set (edges g) \<longrightarrow>
              fst p = snd p \<or> 2 \<le> count_list (edges g) p"
      using only by blast
    show "distinct (edges g) \<and> list_all (\<lambda>(u, v). u \<noteq> v) (edges g) \<longrightarrow>
              set ?s \<inter> set (edges g) = {}"
      using simple by blast
    show "valid_graph g \<longrightarrow>
              (\<forall>p\<in>set (edges g).
                 p \<in> set neg \<longleftrightarrow> fst p = snd p \<or> 2 \<le> count_list (edges g) p)"
      using exact by blast
    show "\<forall>k<length neg.
              possible_choice (length neg) (num_edges g) (replicate (num_edges g) k)"
      using rep by blast
  qed
qed

text \<open>
  The claim as written fails on a graph without self-loops and repeated edges:
  on the path graph the candidate list is \<open>[(0, 2), (2, 0)]\<close>, none of its
  pairs is an edge, and every sampled pair is taken from that list.
\<close>

theorem path_graph_candidates_hold_no_edge:
  "valid_graph g_path \<and> negative_pairs g_path = Inr [(0, 2), (2, 0)] \<and>
   set [(0::nat, 2::nat), (2, 0)] \<inter> set (edges g_path) = {} \<and>
   sample_negative g_path [0, 1, 1, 0] = Inr [(0, 2), (2, 0), (2, 0), (0, 2)] \<and>
   set [(0::nat, 2::nat), (2, 0), (2, 0), (0, 2)] \<inter> set (edges g_path) = {}"
  by (simp add: g_path_negative_pairs sample_negative_def)
     (simp add: g_path_def valid_graph_def)

theorem sampled_edges_are_loops_or_repeated_witness:
  "negative_pairs g_path = Inr [(0, 2), (2, 0)] \<and>
   possible_choice (length [(0::nat, 2::nat), (2, 0)]) (num_edges g_path) [0, 1, 1, 0] \<and>
   \<not> distinct [0::nat, 1, 1, 0] \<and>
   distinct (edges g_path) \<and> list_all (\<lambda>(u, v). u \<noteq> v) (edges g_path) \<and>
   (\<exists>s. sample_negative g_path [0, 1, 1, 0] = Inr s \<and> length s = 4 \<and>
        set s \<inter> set (edges g_path) = {}) \<and>
   negative_pairs g_loop = Inr [(1, 1)] \<and>
   possible_choice (length [(1::nat, 1::nat)]) (num_edges g_loop) [0, 0, 0] \<and>
   valid_graph g_loop \<and> (1, 1) \<in> set (edges g_loop) \<and>
   (\<exists>s. sample_negative g_loop [0, 0, 0] = Inr s \<and> set s \<subseteq> {(1, 1)})"
proof -
  have p: "possible_choice (length [(0::nat, 2::nat), (2, 0)]) (num_edges g_path) [0, 1, 1, 0]"
    by (simp add: possible_choice_def num_edges_def g_path_def)
  have d: "distinct (edges g_path)" "list_all (\<lambda>(u, v). u \<noteq> v) (edges g_path)"
    "num_edges g_path = 4"
    by (simp_all add: g_path_def num_edges_def)
  from sampled_edges_are_loops_or_repeated[OF g_path_negative_pairs p] d
  have 1: "\<exists>s. sample_negative g_path [0, 1, 1, 0] = Inr s \<and> length s = 4 \<and>
        set s \<inter> set (edges g_path) = {}"
    by auto
  have q: "possible_choice (length [(1::nat, 1::nat)]) (num_edges g_loop) [0, 0, 0]"
    by (simp add: possible_choice_def num_edges_def g_loop_def)
  have v: "valid_graph g_loop" "(1, 1) \<in> set (edges g_loop)"
    by (simp_all add: valid_graph_def g_loop_def)
  from sampled_edges_are_loops_or_repeated[OF g_loop_negative_pairs q]
  have 2: "\<exists>s. sample_negative g_loop [0, 0, 0] = Inr s \<and> set s \<subseteq> {(1, 1)}"
    by auto
  from 1 2 p q d v g_path_negative_pairs g_loop_negative_pairs show ?thesis by simp
qed

end
